theory Spec2Isabelle
  imports Main "HOL-Library.Sublist" "HOL-Library.Multiset"
begin

section \<open>Python strings\<close>

text \<open>
  A Python \<open>str\<close> is a sequence of Unicode code points, and \<open>len\<close> counts code points.
  The program compares against Cyrillic literals, so a string is modelled as the list of its
  code points (natural numbers); \<open>ascii\<close> turns an ASCII literal into such a list.
\<close>

type_synonym ustr = "nat list"

definition ascii :: "string \<Rightarrow> ustr" where
  "ascii s = map of_char s"

text \<open>\<open>s.startswith(p)\<close>.\<close>

fun startswith :: "'a list \<Rightarrow> 'a list \<Rightarrow> bool" where
  "startswith s [] = True"
| "startswith [] (p # ps) = False"
| "startswith (x # xs) (p # ps) = (x = p \<and> startswith xs ps)"

text \<open>\<open>p in s\<close> on strings: \<open>p\<close> occurs in \<open>s\<close> as a contiguous substring.\<close>

fun py_in :: "'a list \<Rightarrow> 'a list \<Rightarrow> bool" where
  "py_in p [] = (p = [])"
| "py_in p (x # xs) = (startswith (x # xs) p \<or> py_in p xs)"

text \<open>\<open>sep.join(xs)\<close>.\<close>

fun join :: "ustr \<Rightarrow> ustr list \<Rightarrow> ustr" where
  "join sep [] = []"
| "join sep [x] = x"
| "join sep (x # y # ys) = x @ sep @ join sep (y # ys)"

text \<open>\<open>s.strip()\<close>, for a given whitespace predicate.\<close>

definition strip :: "(nat \<Rightarrow> bool) \<Rightarrow> ustr \<Rightarrow> ustr" where
  "strip sp s = rev (dropWhile sp (rev (dropWhile sp s)))"

text \<open>\<open>s.split(c)\<close> for a one-character separator: empty fields are kept.\<close>

fun split_on :: "nat \<Rightarrow> ustr \<Rightarrow> ustr list" where
  "split_on c [] = [[]]"
| "split_on c (x # xs) =
     (if x = c then [] # split_on c xs
      else (case split_on c xs of [] \<Rightarrow> [[x]] | w # ws \<Rightarrow> (x # w) # ws))"

text \<open>Splitting at runs of whitespace (no empty fields); \<open>w\<close> is the current word, reversed.\<close>

fun split_ws :: "(nat \<Rightarrow> bool) \<Rightarrow> ustr \<Rightarrow> ustr \<Rightarrow> ustr list" where
  "split_ws sp w [] = (if w = [] then [] else [rev w])"
| "split_ws sp w (x # xs) =
     (if sp x then (if w = [] then split_ws sp [] xs else rev w # split_ws sp [] xs)
      else split_ws sp (x # w) xs)"

text \<open>
  A Python \<open>set\<close> is modelled by the list of its members in insertion order, without
  duplicates. Iterating over a set (\<open>list(s)\<close>) visits the members in an order fixed by
  their hashes and the table's history, not by insertion; string hashes are salted per
  interpreter process. The iteration order is therefore a parameter: a key function that
  may depend on the whole set, by which the members are sorted. Every permutation of
  every set is the iteration order for some key function.
\<close>

definition pyset_add :: "'a \<Rightarrow> 'a list \<Rightarrow> 'a list" where
  "pyset_add x s = (if x \<in> set s then s else s @ [x])"

definition list_of_pyset :: "('a list \<Rightarrow> 'a \<Rightarrow> nat) \<Rightarrow> 'a list \<Rightarrow> 'a list" where
  "list_of_pyset ord s = sort_key (ord s) s"

section \<open>The document model\<close>

text \<open>
  The parsed page, as the document-model library hands it to the program: a tree of tags
  (name, attributes, children) and text nodes. \<open>Decomposed\<close> marks the place of a subtree
  that \<open>decompose()\<close> has destroyed: the library unlinks the subtree; the model leaves an
  inert placeholder, so that the positions of all other nodes stay as they were. No query
  of the program sees a placeholder.
\<close>

datatype node =
    Tag ustr "(ustr \<times> ustr) list" "node list"
  | NavigableString ustr
  | Decomposed

text \<open>A tag of the tree is referred to by its position: the child indices from the root.\<close>

type_synonym position = "nat list"

fun node_at :: "node \<Rightarrow> position \<Rightarrow> node option" where
  "node_at n [] = Some n"
| "node_at (Tag nm a cs) (i # q) = (if i < length cs then node_at (cs ! i) q else None)"
| "node_at (NavigableString s) (i # q) = None"
| "node_at Decomposed (i # q) = None"

text \<open>
  \<open>tag.decompose()\<close> for the tag at position \<open>q\<close>. Decomposing a tag that an earlier
  \<open>decompose()\<close> already destroyed (its position is no longer in the tree) changes nothing.
\<close>

fun decompose :: "node \<Rightarrow> position \<Rightarrow> node" where
  "decompose n [] = Decomposed"
| "decompose (Tag nm a cs) (i # q) =
     (if i < length cs then Tag nm a (cs[i := decompose (cs ! i) q]) else Tag nm a cs)"
| "decompose (NavigableString s) (i # q) = NavigableString s"
| "decompose Decomposed (i # q) = Decomposed"

text \<open>All tags strictly below a node, in document order, with their relative positions.\<close>

fun descendants :: "node \<Rightarrow> (position \<times> node) list"
  and descendants_list :: "nat \<Rightarrow> node list \<Rightarrow> (position \<times> node) list" where
  "descendants (Tag nm a cs) = descendants_list 0 cs"
| "descendants (NavigableString s) = []"
| "descendants Decomposed = []"
| "descendants_list i [] = []"
| "descendants_list i (c # cs) =
     (case c of Tag nm a ds \<Rightarrow> [([i], c)] | NavigableString s \<Rightarrow> [] | Decomposed \<Rightarrow> [])
     @ map (\<lambda>(q, d). (i # q, d)) (descendants c)
     @ descendants_list (Suc i) cs"

text \<open>\<open>tag.get(key, default)\<close> and the tests on names and attributes used in queries.\<close>

fun get_attr :: "node \<Rightarrow> ustr \<Rightarrow> ustr \<Rightarrow> ustr" where
  "get_attr (Tag nm a cs) k d = (case map_of a k of None \<Rightarrow> d | Some v \<Rightarrow> v)"
| "get_attr (NavigableString s) k d = d"
| "get_attr Decomposed k d = d"

fun has_attr :: "ustr \<Rightarrow> node \<Rightarrow> bool" where
  "has_attr k (Tag nm a cs) = (map_of a k \<noteq> None)"
| "has_attr k (NavigableString s) = False"
| "has_attr k Decomposed = False"

fun attr_is :: "ustr \<Rightarrow> ustr \<Rightarrow> node \<Rightarrow> bool" where
  "attr_is k v (Tag nm a cs) = (map_of a k = Some v)"
| "attr_is k v (NavigableString s) = False"
| "attr_is k v Decomposed = False"

fun named :: "ustr list \<Rightarrow> node \<Rightarrow> bool" where
  "named ns (Tag nm a cs) = (nm \<in> set ns)"
| "named ns (NavigableString s) = False"
| "named ns Decomposed = False"

text \<open>
  \<open>tag["class"]\<close>: the library splits the class attribute at whitespace into a list of
  class names.
\<close>

definition class_tokens :: "(nat \<Rightarrow> bool) \<Rightarrow> node \<Rightarrow> ustr list" where
  "class_tokens sp n = split_ws sp [] (get_attr n (ascii ''class'') [])"

text \<open>\<open>tag.find_all(...)\<close> and \<open>tag.find(...)\<close>: the matching tags below \<open>tag\<close>, and the first of them.\<close>

definition find_all :: "(node \<Rightarrow> bool) \<Rightarrow> node \<Rightarrow> (position \<times> node) list" where
  "find_all P n = filter (\<lambda>(q, d). P d) (descendants n)"

definition find_first :: "(node \<Rightarrow> bool) \<Rightarrow> node \<Rightarrow> (position \<times> node) option" where
  "find_first P n = (case find_all P n of [] \<Rightarrow> None | x # xs \<Rightarrow> Some x)"

text \<open>
  The CSS selectors the program uses: a tag name, a class, a tag name with a class, an
  attribute with a value. \<open>select\<close> takes a comma-separated group of them and returns the
  tags below the node that match one of the group, in document order.
\<close>

datatype selector =
    TagSel ustr
  | ClassSel ustr
  | TagClassSel ustr ustr
  | AttrSel ustr ustr

fun matches_selector :: "(nat \<Rightarrow> bool) \<Rightarrow> node \<Rightarrow> selector \<Rightarrow> bool" where
  "matches_selector sp n (TagSel t) = named [t] n"
| "matches_selector sp n (ClassSel c) = (c \<in> set (class_tokens sp n))"
| "matches_selector sp n (TagClassSel t c) = (named [t] n \<and> c \<in> set (class_tokens sp n))"
| "matches_selector sp n (AttrSel k v) = attr_is k v n"

definition select :: "(nat \<Rightarrow> bool) \<Rightarrow> selector list \<Rightarrow> node \<Rightarrow> (position \<times> node) list" where
  "select sp sels n = find_all (\<lambda>d. list_ex (matches_selector sp d) sels) n"

definition select_one :: "(nat \<Rightarrow> bool) \<Rightarrow> selector list \<Rightarrow> node \<Rightarrow> (position \<times> node) option" where
  "select_one sp sels n = (case select sp sels n of [] \<Rightarrow> None | x # xs \<Rightarrow> Some x)"

text \<open>
  \<open>tag.get_text(strip=True)\<close>: the text nodes below the tag in document order, each
  stripped, the empty ones dropped, concatenated without a separator.
\<close>

fun strings :: "node \<Rightarrow> ustr list" where
  "strings (Tag nm a cs) = concat (map strings cs)"
| "strings (NavigableString s) = [s]"
| "strings Decomposed = []"

definition get_text :: "(nat \<Rightarrow> bool) \<Rightarrow> node \<Rightarrow> ustr" where
  "get_text sp n = concat (filter (\<lambda>s. s \<noteq> []) (map (strip sp) (strings n)))"

text \<open>
  The same queries for a tag given by its position \<open>p\<close> in the current tree; the
  positions returned are absolute. A tag that has been decomposed has no contents.
\<close>

definition below :: "node \<Rightarrow> position \<Rightarrow> (node \<Rightarrow> (position \<times> node) list) \<Rightarrow> position list" where
  "below soup p query =
     (case node_at soup p of
        None \<Rightarrow> []
      | Some c \<Rightarrow> map (\<lambda>(q, d). p @ q) (query c))"

definition text_at :: "(nat \<Rightarrow> bool) \<Rightarrow> node \<Rightarrow> position \<Rightarrow> ustr" where
  "text_at sp soup p = (case node_at soup p of None \<Rightarrow> [] | Some c \<Rightarrow> get_text sp c)"

section \<open>The environment: network, libraries and interpreter\<close>

text \<open>
  What the program takes from outside its own source is a parameter of the model, so that
  every theorem holds whatever these collaborators return:
  \<^item> \<open>requests_get\<close>: the outcome of \<open>requests.get(...)\<close>, \<open>raise_for_status()\<close> and \<open>.text\<close>
    for a URL: the markup text, a \<open>RequestException\<close>, or another exception;
  \<^item> \<open>BeautifulSoup\<close>: the parser, from markup text to a tree, or an exception;
  \<^item> \<open>urlparse\<close>, \<open>urljoin\<close>: the URL library (both can raise \<open>ValueError\<close>);
  \<^item> \<open>lower\<close>, \<open>isspace\<close>, \<open>isdigit\<close>: the Unicode tables behind \<open>str.lower\<close>, \<open>str.strip\<close> and
    \<open>str.isdigit\<close>; \<open>re_digit\<close>: the characters that \<open>\d\<close> matches;
  \<^item> \<open>tag_order\<close>, \<open>str_order\<close>: the iteration orders of a set of tags and of a set of
    strings (see \<open>list_of_pyset\<close>).
  Only exceptions derived from \<open>Exception\<close> are modelled.
\<close>

datatype exn = Exception ustr

datatype http_outcome = Response ustr | RequestException | Raised exn

record parse_result =
  scheme :: ustr
  netloc :: ustr
  path :: ustr

record env =
  requests_get :: "ustr \<Rightarrow> http_outcome"
  BeautifulSoup :: "ustr \<Rightarrow> exn + node"
  urlparse :: "ustr \<Rightarrow> exn + parse_result"
  urljoin :: "ustr \<Rightarrow> ustr \<Rightarrow> exn + ustr"
  lower :: "ustr \<Rightarrow> ustr"
  isspace :: "nat \<Rightarrow> bool"
  isdigit :: "nat \<Rightarrow> bool"
  re_digit :: "nat \<Rightarrow> bool"
  tag_order :: "node list \<Rightarrow> node \<Rightarrow> nat"
  str_order :: "ustr list \<Rightarrow> ustr \<Rightarrow> nat"

subsection \<open>Regular expressions\<close>

text \<open>
  The patterns of the program are sequences of repeated character classes: a literal
  character, \<open>\d\<close>, or \<open>[a-z0-9-]\<close>, each repeated between a lower and an optional upper
  bound. \<open>re_match\<close> decides whether some prefix of the string matches the whole pattern;
  \<open>re_search\<close> is \<open>re.search\<close>: a match starting anywhere.
\<close>

datatype char_class = Lit nat | Digit | Slug

datatype atom = Rep char_class nat "nat option"

fun in_class :: "(nat \<Rightarrow> bool) \<Rightarrow> char_class \<Rightarrow> nat \<Rightarrow> bool" where
  "in_class dg (Lit c) x = (x = c)"
| "in_class dg Digit x = dg x"
| "in_class dg Slug x = ((97 \<le> x \<and> x \<le> 122) \<or> (48 \<le> x \<and> x \<le> 57) \<or> x = 45)"

fun re_match :: "(nat \<Rightarrow> bool) \<Rightarrow> atom list \<Rightarrow> ustr \<Rightarrow> bool" where
  "re_match dg [] s = True"
| "re_match dg (Rep c lo hi # r) s =
     (let n = length (takeWhile (in_class dg c) s);
          top = (case hi of None \<Rightarrow> n | Some h \<Rightarrow> min h n)
      in list_ex (\<lambda>k. re_match dg r (drop k s)) [lo..<Suc top])"

definition re_search :: "(nat \<Rightarrow> bool) \<Rightarrow> atom list \<Rightarrow> ustr \<Rightarrow> bool" where
  "re_search dg r s = list_ex (\<lambda>i. re_match dg r (drop i s)) [0..<Suc (length s)]"

definition lit :: "string \<Rightarrow> atom list" where
  "lit s = map (\<lambda>c. Rep (Lit (of_char c)) 1 (Some 1)) s"

definition one_or_more :: "char_class \<Rightarrow> atom list" where
  "one_or_more c = [Rep c 1 None]"

definition between :: "char_class \<Rightarrow> nat \<Rightarrow> nat \<Rightarrow> atom list" where
  "between c lo hi = [Rep c lo (Some hi)]"

definition at_least :: "char_class \<Rightarrow> nat \<Rightarrow> atom list" where
  "at_least c lo = [Rep c lo None]"

section \<open>Link discovery: \<open>detect_news_links\<close>\<close>

text \<open>\<open>fetch_page\<close>: the markup text, \<open>None\<close> after a \<open>RequestException\<close>; other exceptions propagate.\<close>

definition fetch_page :: "env \<Rightarrow> ustr \<Rightarrow> exn + ustr option" where
  "fetch_page e url =
     (case requests_get e url of
        Response t \<Rightarrow> Inr (Some t)
      | RequestException \<Rightarrow> Inr None
      | Raised x \<Rightarrow> Inl x)"

definition exclude_patterns :: "ustr list" where
  "exclude_patterns = map ascii
     [''/tag/'', ''/tags/'', ''/contacts'', ''/contact'', ''/about'', ''/sotrudnichestvo'',
      ''/view_file.pdf'', ''/search'', ''/login'', ''/register'', ''/auth'',
      ''/rss'', ''/advertising'', ''/privacy'', ''/terms'', ''.jpg'', ''.png'', ''.pdf'',
      ''/category/'', ''/categories/'', ''/section/'', ''/sections/'', ''/topics/'',
      ''/feed/'', ''/subscriptions/'', ''/subscribe/'', ''/newsletter'', ''/newsletters/'',
      ''/latest/'', ''/popular/'', ''/archive/'', ''/authors/'', ''/team/'',
      ''?utm_source='', ''?from='', ''/pages/'', ''/help/'', ''/support/'', ''/dc/'',
      ''/newspaper/'', ''/crypto/'', ''/industries/'', ''/gorod/'']"

definition news_patterns :: "atom list list" where
  "news_patterns =
     [lit ''/'' @ between Digit 4 4 @ lit ''/'' @ between Digit 1 2 @ lit ''/'' @ between Digit 1 2 @ lit ''/'',
      lit ''/news/'' @ one_or_more Digit,
      lit ''/article/'' @ one_or_more Digit,
      lit ''/'' @ at_least Digit 4 @ lit ''/'' @ between Digit 1 2 @ lit ''/'' @ between Digit 1 2
        @ lit ''/'' @ one_or_more Slug,
      lit ''/news/'' @ one_or_more Slug,
      lit ''/article/'' @ one_or_more Slug,
      lit ''/post/'' @ one_or_more Slug,
      lit ''/story/'' @ one_or_more Slug,
      lit ''/'' @ at_least Slug 10]"

definition container_selectors :: "selector list" where
  "container_selectors =
     [TagSel (ascii ''article''),
      TagClassSel (ascii ''div'') (ascii ''article''),
      TagClassSel (ascii ''div'') (ascii ''news''),
      TagClassSel (ascii ''div'') (ascii ''post''),
      TagClassSel (ascii ''li'') (ascii ''news-item''),
      ClassSel (ascii ''news-list''), ClassSel (ascii ''article-list''),
      ClassSel (ascii ''post-list''), ClassSel (ascii ''news-feed''),
      ClassSel (ascii ''news-container''), ClassSel (ascii ''articles-container''),
      ClassSel (ascii ''posts-container''),
      AttrSel (ascii ''data-testid'') (ascii ''latest-stream''),
      AttrSel (ascii ''data-testid'') (ascii ''article-stream'')]"

definition a_href :: "node \<Rightarrow> bool" where
  "a_href d = (named [ascii ''a''] d \<and> has_attr (ascii ''href'') d)"

text \<open>Lines 88--108: the news containers, by selector, else by class keyword.\<close>

definition news_containers :: "env \<Rightarrow> node \<Rightarrow> node list" where
  "news_containers e soup =
     (let found = concat (map (\<lambda>sel. map snd (select (isspace e) [sel] soup)) container_selectors)
      in if found \<noteq> [] then found
         else map snd (find_all
           (\<lambda>d. named [ascii ''div''] d \<and> has_attr (ascii ''class'') d \<and>
              (let class_attr = join (ascii '' '') (class_tokens (isspace e) d)
               in list_ex (\<lambda>keyword. py_in keyword (lower e class_attr))
                    (map ascii [''news'', ''article'', ''post'', ''story'', ''entry''])))
           soup))"

text \<open>Lines 114--124: the links of one container.\<close>

definition container_links :: "env \<Rightarrow> node \<Rightarrow> node list" where
  "container_links e container =
     List.map_filter (\<lambda>heading. map_option snd (find_first a_href heading))
       (map snd (find_all (named (map ascii [''h1'', ''h2'', ''h3'', ''h4''])) container))
     @ filter (\<lambda>link. get_text (isspace e) link \<noteq> [] \<and> 15 < length (get_text (isspace e) link))
         (map snd (find_all a_href container))"

text \<open>Lines 110--138: the links to check, from the containers, else from the whole page.\<close>

definition links_to_check :: "env \<Rightarrow> node \<Rightarrow> node list" where
  "links_to_check e soup =
     (let in_containers = concat (map (container_links e) (news_containers e soup))
      in if in_containers \<noteq> [] then in_containers
         else List.map_filter (\<lambda>heading. map_option snd (find_first a_href heading))
                (map snd (find_all (named (map ascii [''h2'', ''h3''])) soup))
              @ filter (\<lambda>link. let text = get_text (isspace e) link
                                in text \<noteq> [] \<and> 30 < length text \<and> length text < 150)
                  (map snd (find_all a_href soup)))"

text \<open>
  Lines 140--145: the links go through a set. Two tags are equal for the library when their
  names, attributes and contents are, which is equality of trees; a tag's hash is the hash
  of its markup text, a string.
\<close>

definition unique_links :: "node list \<Rightarrow> node list" where
  "unique_links links = foldl (\<lambda>s link. if link \<notin> set s then pyset_add link s else s) [] links"

text \<open>Lines 163 and 221: an exclusion pattern occurs in the lowercased URL.\<close>

definition excluded :: "env \<Rightarrow> ustr \<Rightarrow> bool" where
  "excluded e full_url = list_ex (\<lambda>pattern. py_in pattern (lower e full_url)) exclude_patterns"

text \<open>
  Lines 149--164 and again 209--222: the link's absolute URL and its parsed form, or
  \<open>None\<close> where the loop says \<open>continue\<close> (empty, fragment or script href; a host that does
  not contain the site's host; an exclusion pattern in the lowercased URL).
\<close>

definition resolve_link :: "env \<Rightarrow> parse_result \<Rightarrow> ustr \<Rightarrow> node \<Rightarrow> exn + (ustr \<times> parse_result) option" where
  "resolve_link e parsed_url base_url link =
     (let href = get_attr link (ascii ''href'') []
      in if href = [] \<or> startswith href (ascii ''#'') \<or> startswith href (ascii ''javascript:'')
         then Inr None
         else (case urljoin e base_url href of
                 Inl x \<Rightarrow> Inl x
               | Inr full_url \<Rightarrow>
                  (case urlparse e full_url of
                     Inl x \<Rightarrow> Inl x
                   | Inr parsed_href \<Rightarrow>
                      if \<not> py_in (netloc parsed_url) (netloc parsed_href) then Inr None
                      else if excluded e full_url then Inr None
                      else Inr (Some (full_url, parsed_href)))))"

text \<open>Lines 167--193: the three tests that make a link likely news.\<close>

definition is_likely_news :: "env \<Rightarrow> ustr \<Rightarrow> node \<Rightarrow> bool" where
  "is_likely_news e pth link =
     (let by_pattern = list_ex (\<lambda>pattern. re_search (re_digit e) pattern pth) news_patterns;
          segments = filter (\<lambda>s. s \<noteq> []) (split_on 47 pth);
          by_segments =
            (if \<not> by_pattern \<and> 2 \<le> length segments
             then (if segments \<noteq> [] \<and> 10 < length (last segments) then True
                   else if list_ex (\<lambda>segment. list_ex (isdigit e) segment) segments then True
                   else by_pattern)
             else by_pattern);
          link_text = get_text (isspace e) link
      in if link_text \<noteq> [] \<and> 30 < length link_text \<and> length link_text < 200
            \<and> (py_in (ascii '':'') link_text
                 \<or> list_ex (\<lambda>word. py_in word (lower e link_text))
                      (map ascii [''says'', ''claims'', ''reports'', ''announced'', ''revealed'',
                                  ''launches'', ''introduces'']))
         then True else by_segments)"

text \<open>
  Lines 148--201: the main pass over the links. \<open>news_links\<close> is the set built so far. A
  \<open>continue\<close> skips the test of the cap at the end of the loop body.
\<close>

fun main_pass :: "env \<Rightarrow> parse_result \<Rightarrow> ustr \<Rightarrow> int \<Rightarrow> node list \<Rightarrow> ustr list \<Rightarrow> exn + ustr list" where
  "main_pass e parsed_url base_url max_links [] news_links = Inr news_links"
| "main_pass e parsed_url base_url max_links (link # rest) news_links =
     (case resolve_link e parsed_url base_url link of
        Inl x \<Rightarrow> Inl x
      | Inr None \<Rightarrow> main_pass e parsed_url base_url max_links rest news_links
      | Inr (Some (full_url, parsed_href)) \<Rightarrow>
         (let news_links' =
                (if is_likely_news e (path parsed_href) link \<and> full_url \<notin> set news_links
                 then pyset_add full_url news_links else news_links)
          in if max_links \<le> int (length news_links') then Inr news_links'
             else main_pass e parsed_url base_url max_links rest news_links'))"

text \<open>Lines 208--234: the last-resort pass over every anchor, patterns only.\<close>

fun last_resort :: "env \<Rightarrow> parse_result \<Rightarrow> ustr \<Rightarrow> int \<Rightarrow> node list \<Rightarrow> ustr list \<Rightarrow> exn + ustr list" where
  "last_resort e parsed_url base_url max_links [] news_links = Inr news_links"
| "last_resort e parsed_url base_url max_links (link # rest) news_links =
     (case resolve_link e parsed_url base_url link of
        Inl x \<Rightarrow> Inl x
      | Inr None \<Rightarrow> last_resort e parsed_url base_url max_links rest news_links
      | Inr (Some (full_url, parsed_href)) \<Rightarrow>
         (let news_links' =
                (if list_ex (\<lambda>pattern. re_search (re_digit e) pattern (path parsed_href)) news_patterns
                    \<and> full_url \<notin> set news_links
                 then pyset_add full_url news_links else news_links)
          in if max_links \<le> int (length news_links') then Inr news_links'
             else last_resort e parsed_url base_url max_links rest news_links'))"

text \<open>Line 61: the base URL, from the scheme and the host of the site URL.\<close>

definition base_of :: "parse_result \<Rightarrow> ustr" where
  "base_of parsed_url = scheme parsed_url @ ascii ''://'' @ netloc parsed_url"

definition detect_news_links :: "env \<Rightarrow> ustr \<Rightarrow> int \<Rightarrow> exn + ustr list" where
  "detect_news_links e url max_links =
     (case fetch_page e url of
        Inl x \<Rightarrow> Inl x
      | Inr None \<Rightarrow> Inr []
      | Inr (Some html) \<Rightarrow>
         if html = [] then Inr []
         else (case BeautifulSoup e html of
                 Inl x \<Rightarrow> Inl x
               | Inr soup \<Rightarrow>
                  (case urlparse e url of
                     Inl x \<Rightarrow> Inl x
                   | Inr parsed_url \<Rightarrow>
                      (let base_url = base_of parsed_url;
                           links = list_of_pyset (tag_order e) (unique_links (links_to_check e soup))
                       in case main_pass e parsed_url base_url max_links links [] of
                            Inl x \<Rightarrow> Inl x
                          | Inr news_links \<Rightarrow>
                             (case (if news_links = []
                                    then last_resort e parsed_url base_url max_links
                                           (map snd (find_all a_href soup)) []
                                    else Inr news_links) of
                                Inl x \<Rightarrow> Inl x
                              | Inr news_links' \<Rightarrow> Inr (list_of_pyset (str_order e) news_links'))))))"

section \<open>Content extraction: \<open>parse_news_content\<close>\<close>

record news_item =
  url :: ustr
  title :: ustr
  content :: ustr

text \<open>Lines 248--254: the five title candidates, each a tag or \<open>None\<close>.\<close>

definition title_candidates :: "env \<Rightarrow> node \<Rightarrow> node option list" where
  "title_candidates e soup = map (map_option snd)
     [find_first (named [ascii ''h1'']) soup,
      select_one (isspace e)
        [ClassSel (ascii ''news-title''), ClassSel (ascii ''article-title''),
         ClassSel (ascii ''post-title''), ClassSel (ascii ''entry-title''),
         ClassSel (ascii ''headline''), ClassSel (ascii ''title'')] soup,
      find_first (\<lambda>d. named [ascii ''meta''] d \<and> attr_is (ascii ''property'') (ascii ''og:title'') d) soup,
      find_first (\<lambda>d. named [ascii ''meta''] d \<and> attr_is (ascii ''name'') (ascii ''title'') d) soup,
      find_first (named [ascii ''title'']) soup]"

text \<open>
  \<open>hasattr(candidate, 'get')\<close>: every tag of the document-model library has the method
  \<open>get\<close> (the attribute lookup), whatever its name; a string has not.
\<close>

fun hasattr_get :: "node \<Rightarrow> bool" where
  "hasattr_get (Tag nm a cs) = True"
| "hasattr_get (NavigableString s) = False"
| "hasattr_get Decomposed = False"

text \<open>Lines 256--263: the loop over the candidates; \<open>cur\<close> is the variable \<open>title\<close>, \<open>None\<close> at first.\<close>

fun title_loop :: "env \<Rightarrow> node option list \<Rightarrow> ustr option \<Rightarrow> ustr option" where
  "title_loop e [] cur = cur"
| "title_loop e (None # rest) cur = title_loop e rest cur"
| "title_loop e (Some candidate # rest) cur =
     (let title' = (if hasattr_get candidate then get_attr candidate (ascii ''content'') []
                    else get_text (isspace e) candidate)
      in if title' \<noteq> [] then Some title' else title_loop e rest (Some title'))"

text \<open>The fallback literal of line 266, by code points (thirteen characters, Cyrillic).\<close>

definition fallback_title :: ustr where
  "fallback_title = [1041, 1077, 1079, 32, 1079, 1072, 1075, 1086, 1083, 1086, 1074, 1082, 1072]"

definition resolve_title :: "env \<Rightarrow> node \<Rightarrow> ustr" where
  "resolve_title e soup =
     (case title_loop e (title_candidates e soup) None of
        None \<Rightarrow> fallback_title
      | Some t \<Rightarrow> if t = [] then fallback_title else t)"

text \<open>
  The body. The variables of lines 268--313 are the state: the tree \<open>soup\<close> (which \<open>decompose\<close>
  changes), \<open>content_text\<close>, \<open>paragraphs\<close> (tags, by position) and \<open>filtered_paragraphs\<close>,
  which is unbound (\<open>None\<close>) until first assigned.
\<close>

record body_state =
  tree :: node
  content_text :: ustr
  paragraphs :: "position list"
  filtered_paragraphs :: "ustr list option"

definition content_keywords :: "ustr list" where
  "content_keywords = map ascii [''content'', ''article'', ''news'', ''text'', ''body'', ''story'']"

text \<open>
  Lines 272--277. For the class attribute the library tries the function on each class
  name and then on the names joined by spaces; without the attribute the function gets
  \<open>None\<close>.
\<close>

definition content_containers :: "env \<Rightarrow> node \<Rightarrow> position option list" where
  "content_containers e soup = map (map_option fst)
     [select_one (isspace e)
        [TagSel (ascii ''article''), ClassSel (ascii ''article''), ClassSel (ascii ''news-content''),
         ClassSel (ascii ''post-content''), ClassSel (ascii ''entry-content''),
         ClassSel (ascii ''content''), ClassSel (ascii ''article-body''),
         ClassSel (ascii ''post-body''), ClassSel (ascii ''story-body'')] soup,
      find_first (\<lambda>d. named [ascii ''div''] d \<and> attr_is (ascii ''itemprop'') (ascii ''articleBody'') d) soup,
      find_first (\<lambda>d. named [ascii ''div''] d \<and> has_attr (ascii ''class'') d \<and>
          list_ex (\<lambda>c. c \<noteq> [] \<and> list_ex (\<lambda>x. py_in x c) content_keywords)
            (class_tokens (isspace e) d @ [join (ascii '' '') (class_tokens (isspace e) d)])) soup,
      find_first (\<lambda>d. named [ascii ''div''] d \<and>
          (let i = get_attr d (ascii ''id'') []
           in i \<noteq> [] \<and> list_ex (\<lambda>x. py_in x i) content_keywords)) soup]"

definition nav_selectors :: "selector list" where
  "nav_selectors =
     [TagSel (ascii ''nav''), ClassSel (ascii ''nav''), ClassSel (ascii ''navigation''),
      ClassSel (ascii ''share''), ClassSel (ascii ''social''), ClassSel (ascii ''related''),
      ClassSel (ascii ''comments''), ClassSel (ascii ''sidebar''), TagSel (ascii ''aside''),
      TagSel (ascii ''footer''), TagSel (ascii ''header'')]"

text \<open>Lines 282--284 and 299--301: decompose every match below the tag at \<open>p\<close>.\<close>

definition strip_navigation :: "env \<Rightarrow> node \<Rightarrow> position \<Rightarrow> node" where
  "strip_navigation e sp p = foldl decompose sp (below sp p (select (isspace e) nav_selectors))"

text \<open>Lines 289, 304, 311: the texts of the paragraphs that are longer than 20 characters.\<close>

definition filter_paragraphs :: "env \<Rightarrow> node \<Rightarrow> position list \<Rightarrow> ustr list" where
  "filter_paragraphs e sp ps =
     filter (\<lambda>t. 20 < length t) (map (text_at (isspace e) sp) ps)"

definition is_p :: "node \<Rightarrow> bool" where
  "is_p d = named [ascii ''p''] d"

text \<open>Lines 279--292: the loop over the content containers, leaving at the first success.\<close>

fun container_loop :: "env \<Rightarrow> position option list \<Rightarrow> body_state \<Rightarrow> body_state" where
  "container_loop e [] st = st"
| "container_loop e (None # rest) st = container_loop e rest st"
| "container_loop e (Some container # rest) st =
     (let soup' = strip_navigation e (tree st) container;
          ps = below soup' container (find_all is_p);
          st1 = st\<lparr>tree := soup', paragraphs := ps\<rparr>
      in if ps \<noteq> []
         then (let fp = filter_paragraphs e soup' ps;
                   st2 = st1\<lparr>filtered_paragraphs := Some fp\<rparr>
               in if fp \<noteq> [] then st2\<lparr>content_text := join (ascii '' '') fp\<rparr>
                  else container_loop e rest st2)
         else container_loop e rest st1)"

text \<open>Lines 295--306: the paragraphs of \<open>main\<close>, else of \<open>body\<close>.\<close>

definition main_or_body :: "env \<Rightarrow> body_state \<Rightarrow> body_state" where
  "main_or_body e st =
     (if content_text st \<noteq> [] then st
      else (case (case find_first (named [ascii ''main'']) (tree st) of
                    Some m \<Rightarrow> Some m
                  | None \<Rightarrow> find_first (named [ascii ''body'']) (tree st)) of
              None \<Rightarrow> st
            | Some (main_content, d) \<Rightarrow>
               (let soup' = strip_navigation e (tree st) main_content;
                    ps = below soup' main_content (find_all is_p);
                    fp = filter_paragraphs e soup' ps;
                    st1 = st\<lparr>tree := soup', paragraphs := ps, filtered_paragraphs := Some fp\<rparr>
                in if fp \<noteq> [] then st1\<lparr>content_text := join (ascii '' '') fp\<rparr> else st1)))"

text \<open>Lines 309--313: every paragraph of the page.\<close>

definition all_paragraphs :: "env \<Rightarrow> body_state \<Rightarrow> body_state" where
  "all_paragraphs e st =
     (if content_text st \<noteq> [] then st
      else (let ps = below (tree st) [] (find_all is_p);
                fp = filter_paragraphs e (tree st) ps;
                st1 = st\<lparr>paragraphs := ps, filtered_paragraphs := Some fp\<rparr>
            in if fp \<noteq> [] then st1\<lparr>content_text := join (ascii '' '') fp\<rparr> else st1))"

definition resolve_body :: "env \<Rightarrow> node \<Rightarrow> body_state" where
  "resolve_body e sp =
     all_paragraphs e (main_or_body e (container_loop e (content_containers e sp)
       \<lparr>tree = sp, content_text = [], paragraphs = [], filtered_paragraphs = None\<rparr>))"

text \<open>The error-page markers of line 321; the last is Cyrillic, by code points.\<close>

definition error_markers :: "ustr list" where
  "error_markers =
     [ascii ''404'', ascii ''not found'', ascii ''page not found'',
      [1089, 1090, 1088, 1072, 1085, 1080, 1094, 1072, 32, 1085, 1077, 32,
       1085, 1072, 1081, 1076, 1077, 1085, 1072]]"

text \<open>Lines 246--335: from the parsed page to the record, or \<open>None\<close>.\<close>

definition article_of :: "env \<Rightarrow> ustr \<Rightarrow> node \<Rightarrow> news_item option" where
  "article_of e u sp =
     (let t = resolve_title e sp;
          st = resolve_body e sp
      in if content_text st = [] \<or> length (content_text st) < 100 then None
         else if list_ex (\<lambda>phrase. py_in phrase (lower e (content_text st))) error_markers then None
         else (let paragraphs_set = (case filtered_paragraphs st of
                                       None \<Rightarrow> []
                                     | Some fp \<Rightarrow> remdups fp)
               in if length paragraphs_set < 3 then None
                  else Some \<lparr>url = u, title = t, content = content_text st\<rparr>))"

definition parse_news_content :: "env \<Rightarrow> ustr \<Rightarrow> exn + news_item option" where
  "parse_news_content e u =
     (case fetch_page e u of
        Inl x \<Rightarrow> Inl x
      | Inr None \<Rightarrow> Inr None
      | Inr (Some html) \<Rightarrow>
         if html = [] then Inr None
         else (case BeautifulSoup e html of
                 Inl x \<Rightarrow> Inl x
               | Inr sp \<Rightarrow> Inr (article_of e u sp)))"

section \<open>The orchestrator: \<open>process_site\<close> and \<open>parse_news\<close>\<close>

text \<open>
  Lines 351--362, inside the \<open>try\<close>: the loop over the links. An exception leaves the loop
  and the \<open>try\<close>; line 368 then returns \<open>result\<close> as it stands.
\<close>

fun collect_news :: "env \<Rightarrow> int \<Rightarrow> ustr list \<Rightarrow> news_item list \<Rightarrow> news_item list" where
  "collect_news e max_news [] result = result"
| "collect_news e max_news (news_url # rest) result =
     (case parse_news_content e news_url of
        Inl x \<Rightarrow> result
      | Inr None \<Rightarrow> collect_news e max_news rest result
      | Inr (Some news_data) \<Rightarrow>
         (let result' = result @ [news_data]
          in if max_news \<le> int (length result') then result'
             else collect_news e max_news rest result'))"

definition process_site :: "env \<Rightarrow> ustr \<Rightarrow> int \<Rightarrow> news_item list" where
  "process_site e u max_news =
     (case detect_news_links e u (max_news * 2) of
        Inl x \<Rightarrow> []
      | Inr news_links \<Rightarrow>
         if news_links = [] then [] else collect_news e max_news news_links [])"

text \<open>
  The endpoint. Its one \<open>raise\<close> is the \<open>HTTPException\<close> with status 400 for an empty list;
  \<open>process_site\<close> is called without \<open>max_news\<close>, which is then the default 5.
\<close>

datatype http_error = HTTPException nat ustr

record news_response =
  total_news :: nat
  news :: "news_item list"

definition empty_list_detail :: ustr where
  "empty_list_detail =
     [1057, 1087, 1080, 1089, 1086, 1082, 32, 85, 82, 76, 45, 1072, 1076, 1088, 1077, 1089,
      1086, 1074, 32, 1085, 1077, 32, 1084, 1086, 1078, 1077, 1090, 32, 1073, 1099, 1090,
      1100, 32, 1087, 1091, 1089, 1090, 1099, 1084]"

definition default_max_news :: int where
  "default_max_news = 5"

definition parse_news :: "env \<Rightarrow> ustr list \<Rightarrow> http_error + news_response" where
  "parse_news e urls =
     (if urls = [] then Inl (HTTPException 400 empty_list_detail)
      else (let all_news = concat (map (\<lambda>site_url. process_site e site_url default_max_news) urls)
            in Inr \<lparr>total_news = length all_news, news = all_news\<rparr>))"

section \<open>A concrete environment\<close>

text \<open>
  The theorems below hold for every environment. Where a theorem is applied to a
  concrete input, this environment is used: the URL library restricted to URLs of the shape
  \<open>scheme://host/path?query#fragment\<close> and hrefs without dot segments, the Unicode tables
  restricted to ASCII and the basic Cyrillic letters, and a small network of pages.
\<close>

definition lower_cp :: "nat \<Rightarrow> nat" where
  "lower_cp c =
     (if 65 \<le> c \<and> c \<le> 90 then c + 32
      else if 1040 \<le> c \<and> c \<le> 1071 then c + 32
      else if 1024 \<le> c \<and> c \<le> 1039 then c + 80
      else c)"

definition space_cp :: "nat \<Rightarrow> bool" where
  "space_cp c = (c \<in> set [9, 10, 11, 12, 13, 28, 29, 30, 31, 32, 133, 160])"

definition digit_cp :: "nat \<Rightarrow> bool" where
  "digit_cp c = (48 \<le> c \<and> c \<le> 57)"

definition scheme_cp :: "nat \<Rightarrow> bool" where
  "scheme_cp c = ((97 \<le> c \<and> c \<le> 122) \<or> (65 \<le> c \<and> c \<le> 90) \<or> digit_cp c \<or> c \<in> set [43, 45, 46])"

text \<open>The scheme (before the first colon, when well-formed) and the rest of a URL.\<close>

definition split_scheme :: "ustr \<Rightarrow> ustr \<times> ustr" where
  "split_scheme u =
     (let s = takeWhile (\<lambda>c. c \<noteq> 58) u; r = dropWhile (\<lambda>c. c \<noteq> 58) u
      in if r \<noteq> [] \<and> s \<noteq> [] \<and> \<not> digit_cp (hd s) \<and> list_all scheme_cp s
         then (map lower_cp s, tl r) else ([], u))"

definition url_parse :: "ustr \<Rightarrow> exn + parse_result" where
  "url_parse u =
     (let (s, r) = split_scheme u;
          stop = (\<lambda>c. c \<in> set [47, 63, 35]);
          (n, r') = (if startswith r (ascii ''//'')
                     then (takeWhile (\<lambda>c. \<not> stop c) (drop 2 r), dropWhile (\<lambda>c. \<not> stop c) (drop 2 r))
                     else ([], r))
      in Inr \<lparr>scheme = s, netloc = n, path = takeWhile (\<lambda>c. c \<notin> set [63, 35]) r'\<rparr>)"

definition url_join :: "ustr \<Rightarrow> ustr \<Rightarrow> exn + ustr" where
  "url_join base href =
     (if href = [] then Inr base
      else if fst (split_scheme href) \<noteq> [] then Inr href
      else if startswith href (ascii ''//'') then Inr (fst (split_scheme base) @ ascii '':'' @ href)
      else if startswith href (ascii ''/'') \<or> startswith href (ascii ''?'') \<or> startswith href (ascii ''#'')
      then Inr (base @ href)
      else Inr (base @ ascii ''/'' @ href))"

text \<open>Two iteration orders: members in insertion order, and in the reverse of it.\<close>

definition insertion_order :: "'a list \<Rightarrow> 'a \<Rightarrow> nat" where
  "insertion_order s x = 0"


text \<open>
  The pages. The front page of \<open>http://example.com\<close> lists two articles; the first article
  has a heading and a document title, the second has an empty document title, no other
  title source, and repeats a paragraph. The front page of \<open>http://example.org\<close> links
  to another host whose name ends in \<open>example.org\<close>. The front page of
  \<open>http://example.net\<close> lists two articles: the first has the markup of the first
  article above, and fetching the second raises an exception that is not a
  \<open>RequestException\<close>; so does fetching \<open>http://down.example\<close>. Each page is given as its
  markup text and as the tree the parser builds from it.
\<close>

definition elem :: "string \<Rightarrow> node list \<Rightarrow> node" where
  "elem nm cs = Tag (ascii nm) [] cs"

definition txt_node :: "string \<Rightarrow> node" where
  "txt_node s = NavigableString (ascii s)"

definition anchor :: "string \<Rightarrow> string \<Rightarrow> node" where
  "anchor href s = Tag (ascii ''a'') [(ascii ''href'', ascii href)] [txt_node s]"

definition document :: "node list \<Rightarrow> node" where
  "document cs = Tag (ascii ''[document]'') [] cs"

definition front_markup :: ustr where
  "front_markup = ascii
     (''<html><body><article><h2><a href=/news/12345>Council vote</a></h2>''
      @ ''<h2><a href=/news/67890>Bridge works</a></h2></article></body></html>'')"

definition front_tree :: node where
  "front_tree = document [elem ''html'' [elem ''body'' [elem ''article''
     [elem ''h2'' [anchor ''/news/12345'' ''Council vote''],
      elem ''h2'' [anchor ''/news/67890'' ''Bridge works'']]]]]"

definition article1_markup :: ustr where
  "article1_markup = ascii
     (''<html><head><title>City news</title></head><body><h1>Council vote</h1><article>''
      @ ''<p>The council met on Monday to vote.</p>''
      @ ''<p>The vote was postponed until next week.</p>''
      @ ''<p>Residents asked for a public hearing.</p></article></body></html>'')"

definition article1_tree :: node where
  "article1_tree = document [elem ''html''
     [elem ''head'' [elem ''title'' [txt_node ''City news'']],
      elem ''body''
        [elem ''h1'' [txt_node ''Council vote''],
         elem ''article''
           [elem ''p'' [txt_node ''The council met on Monday to vote.''],
            elem ''p'' [txt_node ''The vote was postponed until next week.''],
            elem ''p'' [txt_node ''Residents asked for a public hearing.'']]]]]"

definition article2_markup :: ustr where
  "article2_markup = ascii
     (''<html><head><title></title></head><body><article>''
      @ ''<p>The bridge closes for repairs in May.</p>''
      @ ''<p>The bridge closes for repairs in May.</p>''
      @ ''<p>Buses will run over the old ferry road.</p>''
      @ ''<p>The works are planned to end in autumn.</p></article></body></html>'')"

definition article2_tree :: node where
  "article2_tree = document [elem ''html''
     [elem ''head'' [elem ''title'' []],
      elem ''body'' [elem ''article''
        [elem ''p'' [txt_node ''The bridge closes for repairs in May.''],
         elem ''p'' [txt_node ''The bridge closes for repairs in May.''],
         elem ''p'' [txt_node ''Buses will run over the old ferry road.''],
         elem ''p'' [txt_node ''The works are planned to end in autumn.'']]]]]"

definition other_markup :: ustr where
  "other_markup = ascii
     ''<html><body><article><h2><a href=http://notexample.org/news/12345>Elsewhere</a></h2></article></body></html>''"

definition other_tree :: node where
  "other_tree = document [elem ''html'' [elem ''body'' [elem ''article''
     [elem ''h2'' [anchor ''http://notexample.org/news/12345'' ''Elsewhere'']]]]]"

definition net_markup :: ustr where
  "net_markup = ascii
     (''<html><body><article><h2><a href=/news/11111>Council vote</a></h2>''
      @ ''<h2><a href=/news/22222>Late edition</a></h2></article></body></html>'')"

definition net_tree :: node where
  "net_tree = document [elem ''html'' [elem ''body'' [elem ''article''
     [elem ''h2'' [anchor ''/news/11111'' ''Council vote''],
      elem ''h2'' [anchor ''/news/22222'' ''Late edition'']]]]]"

definition site_url :: ustr where
  "site_url = ascii ''http://example.com''"

definition article1_url :: ustr where
  "article1_url = ascii ''http://example.com/news/12345''"

definition article2_url :: ustr where
  "article2_url = ascii ''http://example.com/news/67890''"

definition other_site_url :: ustr where
  "other_site_url = ascii ''http://example.org''"

definition failing_site_url :: ustr where
  "failing_site_url = ascii ''http://down.example''"

definition net_site_url :: ustr where
  "net_site_url = ascii ''http://example.net''"

definition net_article1_url :: ustr where
  "net_article1_url = ascii ''http://example.net/news/11111''"

definition net_article2_url :: ustr where
  "net_article2_url = ascii ''http://example.net/news/22222''"

definition unexpected :: exn where
  "unexpected = Exception (ascii ''unexpected'')"

definition pages :: "ustr \<Rightarrow> http_outcome" where
  "pages u =
     (if u = site_url then Response front_markup
      else if u = article1_url then Response article1_markup
      else if u = article2_url then Response article2_markup
      else if u = other_site_url then Response other_markup
      else if u = failing_site_url then Raised unexpected
      else if u = net_site_url then Response net_markup
      else if u = net_article1_url then Response article1_markup
      else if u = net_article2_url then Raised unexpected
      else RequestException)"

definition parser :: "ustr \<Rightarrow> exn + node" where
  "parser html =
     (if html = front_markup then Inr front_tree
      else if html = article1_markup then Inr article1_tree
      else if html = article2_markup then Inr article2_tree
      else if html = other_markup then Inr other_tree
      else if html = net_markup then Inr net_tree
      else Inl (Exception (ascii ''parser'')))"

definition env_with :: "(node list \<Rightarrow> node \<Rightarrow> nat) \<Rightarrow> (ustr list \<Rightarrow> ustr \<Rightarrow> nat) \<Rightarrow> env" where
  "env_with tord sord =
     \<lparr>requests_get = pages, BeautifulSoup = parser, urlparse = url_parse, urljoin = url_join,
      lower = map lower_cp, isspace = space_cp, isdigit = digit_cp, re_digit = digit_cp,
      tag_order = tord, str_order = sord\<rparr>"

definition env0 :: env where
  "env0 = env_with insertion_order insertion_order"


text \<open>The records that the two article pages give.\<close>

definition council_text :: ustr where
  "council_text = ascii
     (''The council met on Monday to vote. The vote was postponed until next week. ''
      @ ''Residents asked for a public hearing.'')"

definition bridge_text :: ustr where
  "bridge_text = ascii
     (''The bridge closes for repairs in May. The bridge closes for repairs in May. ''
      @ ''Buses will run over the old ferry road. The works are planned to end in autumn.'')"

definition article1_item :: news_item where
  "article1_item = \<lparr>url = article1_url, title = fallback_title, content = council_text\<rparr>"

definition article2_item :: news_item where
  "article2_item = \<lparr>url = article2_url, title = fallback_title, content = bridge_text\<rparr>"

definition net_article1_item :: news_item where
  "net_article1_item = \<lparr>url = net_article1_url, title = fallback_title, content = council_text\<rparr>"

section \<open>Notions used in the statements\<close>

text \<open>
  The invariant of the body resolution: once \<open>content_text\<close> is set, \<open>filtered_paragraphs\<close>
  is bound to the filtered texts of the current \<open>paragraphs\<close>, and \<open>content_text\<close> is their
  join.
\<close>

definition body_inv :: "env \<Rightarrow> body_state \<Rightarrow> bool" where
  "body_inv e st =
     (content_text st = [] \<or>
      (filtered_paragraphs st = Some (filter_paragraphs e (tree st) (paragraphs st)) \<and>
       content_text st = join (ascii '' '') (filter_paragraphs e (tree st) (paragraphs st))))"


text \<open>The records of the links of a list whose page passes the extraction, in order.\<close>

fun records_of :: "env \<Rightarrow> ustr list \<Rightarrow> news_item list" where
  "records_of e [] = []"
| "records_of e (l # ls) =
     (case parse_news_content e l of
        Inr (Some r) \<Rightarrow> r # records_of e ls
      | Inr None \<Rightarrow> records_of e ls
      | Inl x \<Rightarrow> records_of e ls)"




text \<open>
  The text that a title source yields in the words of the specification: a \<open>meta\<close> tag
  contributes its \<open>content\<close> attribute, any other element its visible text.
\<close>

definition claimed_text :: "env \<Rightarrow> node \<Rightarrow> ustr" where
  "claimed_text e d =
     (if named [ascii ''meta''] d then get_attr d (ascii ''content'') []
      else get_text (isspace e) d)"

section \<open>Properties\<close>

subsection \<open>Sets\<close>

lemma set_list_of_pyset: "set (list_of_pyset ord s) = set s"
  by (simp add: list_of_pyset_def)

lemma length_list_of_pyset: "length (list_of_pyset ord s) = length s"
  by (simp add: list_of_pyset_def)

subsection \<open>Body resolution\<close>

lemma container_loop_inv:
  "content_text st = [] \<Longrightarrow> body_inv e (container_loop e cs st)"
proof (induction e cs st rule: container_loop.induct)
  case (1 e st)
  then show ?case by (simp add: body_inv_def)
next
  case (2 e rest st)
  then show ?case by simp
next
  case (3 e container rest st)
  then show ?case
    by (simp add: Let_def body_inv_def)
qed

lemma main_or_body_inv: "body_inv e st \<Longrightarrow> body_inv e (main_or_body e st)"
  by (auto simp: main_or_body_def body_inv_def Let_def split: option.splits prod.splits)

lemma all_paragraphs_inv: "body_inv e st \<Longrightarrow> body_inv e (all_paragraphs e st)"
  by (auto simp: all_paragraphs_def body_inv_def Let_def)

lemma resolve_body_inv: "body_inv e (resolve_body e sp)"
  unfolding resolve_body_def
  by (intro all_paragraphs_inv main_or_body_inv container_loop_inv) simp

lemma parse_news_content_SomeD:
  assumes "parse_news_content e u = Inr (Some r)"
  shows "\<exists>html sp. fetch_page e u = Inr (Some html) \<and> BeautifulSoup e html = Inr sp
           \<and> article_of e u sp = Some r"
  using assms
  by (auto simp: parse_news_content_def split: sum.splits option.splits if_splits)

lemma article_of_SomeD:
  assumes "article_of e u sp = Some r"
  shows "content r = content_text (resolve_body e sp)"
    and "100 \<le> length (content r)"
    and "\<not> list_ex (\<lambda>phrase. py_in phrase (lower e (content r))) error_markers"
    and "\<exists>fp. filtered_paragraphs (resolve_body e sp) = Some fp \<and> 3 \<le> length (remdups fp)"
    and "title r = resolve_title e sp"
    and "url r = u"
  using assms
  by (auto simp: article_of_def Let_def split: if_splits option.splits)

lemma article_of_survivors:
  assumes "article_of e u sp = Some r"
  shows "content r = join (ascii '' '')
           (filter_paragraphs e (tree (resolve_body e sp)) (paragraphs (resolve_body e sp)))"
    and "3 \<le> card (set
           (filter_paragraphs e (tree (resolve_body e sp)) (paragraphs (resolve_body e sp))))"
proof -
  let ?st = "resolve_body e sp"
  from article_of_SomeD[OF assms] have c: "content r = content_text ?st"
    and len: "100 \<le> length (content r)"
    and fp: "\<exists>fp. filtered_paragraphs ?st = Some fp \<and> 3 \<le> length (remdups fp)"
    by blast+
  from c len have ne: "content_text ?st \<noteq> []" by auto
  with resolve_body_inv[of e sp]
  have inv: "filtered_paragraphs ?st = Some (filter_paragraphs e (tree ?st) (paragraphs ?st))"
    "content_text ?st = join (ascii '' '') (filter_paragraphs e (tree ?st) (paragraphs ?st))"
    by (auto simp: body_inv_def)
  from c inv(2) show "content r = join (ascii '' '')
           (filter_paragraphs e (tree ?st) (paragraphs ?st))" by simp
  from fp inv(1) show "3 \<le> card (set (filter_paragraphs e (tree ?st) (paragraphs ?st)))"
    by (auto simp: length_remdups_card_conv)
qed

text \<open>
  Claim C2. A record that \<open>parse_news_content\<close> returns has a content of at least 100
  characters, no error-page marker in its lowercased content, and at least three distinct
  members among the filtered paragraphs of the strategy that produced the content: the
  content is the join of the filtered texts of the final \<open>paragraphs\<close>, and these texts
  have at least three distinct members. Every other page gives no record.
\<close>

theorem quality_gate:
  assumes "parse_news_content e u = Inr (Some r)"
  shows "100 \<le> length (content r)
       \<and> \<not> list_ex (\<lambda>phrase. py_in phrase (lower e (content r))) error_markers
       \<and> (\<exists>html sp. fetch_page e u = Inr (Some html) \<and> BeautifulSoup e html = Inr sp
            \<and> content r = join (ascii '' '')
                 (filter_paragraphs e (tree (resolve_body e sp)) (paragraphs (resolve_body e sp)))
            \<and> 3 \<le> card (set
                 (filter_paragraphs e (tree (resolve_body e sp)) (paragraphs (resolve_body e sp)))))"
proof -
  from parse_news_content_SomeD[OF assms] obtain html sp where
    f: "fetch_page e u = Inr (Some html)" and b: "BeautifulSoup e html = Inr sp"
    and a: "article_of e u sp = Some r" by blast
  from article_of_SomeD(2,3)[OF a] article_of_survivors[OF a] f b show ?thesis by blast
qed






subsection \<open>Title\<close>

lemma title_loop_no_content:
  assumes "\<forall>c \<in> set cs. \<forall>d. c = Some d \<longrightarrow> get_attr d (ascii ''content'') [] = [] \<and> hasattr_get d"
    and "cur = None \<or> cur = Some []"
  shows "title_loop e cs cur = None \<or> title_loop e cs cur = Some []"
  using assms
proof (induction e cs cur rule: title_loop.induct)
  case (1 e cur)
  then show ?case by simp
next
  case (2 e rest cur)
  then show ?case by simp
next
  case (3 e candidate rest cur)
  then show ?case by (simp add: Let_def)
qed

lemma descendants_tags:
  "(q, d) \<in> set (descendants n) \<Longrightarrow> hasattr_get d"
  "(q, d) \<in> set (descendants_list i cs) \<Longrightarrow> hasattr_get d"
  by (induction n and i cs arbitrary: q and q rule: descendants_descendants_list.induct)
     (auto split: node.splits)

lemma find_all_tags: "(q, d) \<in> set (find_all P n) \<Longrightarrow> hasattr_get d"
  by (auto simp: find_all_def dest: descendants_tags(1))

lemma find_first_tag: "find_first P n = Some (q, d) \<Longrightarrow> hasattr_get d"
proof -
  assume "find_first P n = Some (q, d)"
  then have "(q, d) \<in> set (find_all P n)"
    by (auto simp: find_first_def split: list.splits)
  then show ?thesis by (rule find_all_tags)
qed

lemma select_one_tag: "select_one sp sels n = Some (q, d) \<Longrightarrow> hasattr_get d"
proof -
  assume "select_one sp sels n = Some (q, d)"
  then have "(q, d) \<in> set (find_all (\<lambda>d. list_ex (matches_selector sp d) sels) n)"
    by (auto simp: select_one_def select_def split: list.splits)
  then show ?thesis by (rule find_all_tags)
qed

lemma title_candidates_tags:
  assumes "Some d \<in> set (title_candidates e sp)"
  shows "hasattr_get d"
proof -
  have ff: "Some d = map_option snd (find_first P sp) \<Longrightarrow> hasattr_get d" for P
    by (cases "find_first P sp") (auto dest: find_first_tag)
  have so: "Some d = map_option snd (select_one (isspace e) sels sp) \<Longrightarrow> hasattr_get d" for sels
    by (cases "select_one (isspace e) sels sp") (auto dest: select_one_tag)
  from assms show ?thesis
    unfolding title_candidates_def
    by (simp only: list.map list.set insert_iff empty_iff) (blast intro: ff so)
qed

text \<open>
  Claim C5, as amended. When no title source yields text in the words of the
  specification, and no title source carries a non-empty \<open>content\<close> attribute, the title
  of the returned record is the fallback literal of the program, which is the Cyrillic
  literal \<open>fallback_title\<close> and not \<open>untitled\<close>.
\<close>

theorem fallback_title_used:
  assumes "parse_news_content e u = Inr (Some r)"
    and "fetch_page e u = Inr (Some html)"
    and "BeautifulSoup e html = Inr sp"
    and "\<forall>c \<in> set (title_candidates e sp). \<forall>d. c = Some d \<longrightarrow>
           claimed_text e d = [] \<and> get_attr d (ascii ''content'') [] = []"
  shows "title r = fallback_title"
proof -
  from assms(1-3) have a: "article_of e u sp = Some r"
    by (auto simp: parse_news_content_def split: if_splits)
  have "\<forall>c \<in> set (title_candidates e sp). \<forall>d. c = Some d \<longrightarrow>
          get_attr d (ascii ''content'') [] = [] \<and> hasattr_get d"
    using assms(4) title_candidates_tags by blast
  from title_loop_no_content[OF this, of None e]
  have "resolve_title e sp = fallback_title"
    by (auto simp: resolve_title_def)
  with article_of_SomeD(5)[OF a] show ?thesis by simp
qed

subsection \<open>Exclusion\<close>

lemma resolve_link_not_excluded:
  "resolve_link e pu b link = Inr (Some (u, ph)) \<Longrightarrow> \<not> excluded e u"
  by (auto simp: resolve_link_def Let_def split: if_splits sum.splits)

lemma main_pass_keeps:
  assumes "\<And>link u ph. resolve_link e pu b link = Inr (Some (u, ph)) \<Longrightarrow> Q u"
  shows "\<forall>u \<in> set acc. Q u \<Longrightarrow> main_pass e pu b m links acc = Inr r \<Longrightarrow> \<forall>u \<in> set r. Q u"
proof (induction links arbitrary: acc)
  case Nil
  then show ?case by simp
next
  case (Cons link links)
  show ?case
  proof (cases "resolve_link e pu b link")
    case (Inl x)
    with Cons.prems show ?thesis by simp
  next
    case (Inr v)
    show ?thesis
    proof (cases v)
      case None
      with Inr Cons show ?thesis by simp
    next
      case (Some w)
      obtain u ph where w: "w = (u, ph)" by (cases w)
      from assms Inr Some w have q: "Q u" by blast
      let ?acc = "if is_likely_news e (path ph) link \<and> u \<notin> set acc then pyset_add u acc else acc"
      from q Cons.prems(1) have acc': "\<forall>u \<in> set ?acc. Q u" by (auto simp: pyset_add_def)
      show ?thesis
      proof (cases "m \<le> int (length ?acc)")
        case True
        with Cons.prems(2) Inr Some w have "r = ?acc" by (simp add: Let_def)
        with acc' show ?thesis by simp
      next
        case False
        with Cons.prems(2) Inr Some w have "main_pass e pu b m links ?acc = Inr r"
          by (simp add: Let_def)
        from Cons.IH[OF acc' this] show ?thesis .
      qed
    qed
  qed
qed

lemma last_resort_keeps:
  assumes "\<And>link u ph. resolve_link e pu b link = Inr (Some (u, ph)) \<Longrightarrow> Q u"
  shows "\<forall>u \<in> set acc. Q u \<Longrightarrow> last_resort e pu b m links acc = Inr r \<Longrightarrow> \<forall>u \<in> set r. Q u"
proof (induction links arbitrary: acc)
  case Nil
  then show ?case by simp
next
  case (Cons link links)
  show ?case
  proof (cases "resolve_link e pu b link")
    case (Inl x)
    with Cons.prems show ?thesis by simp
  next
    case (Inr v)
    show ?thesis
    proof (cases v)
      case None
      with Inr Cons show ?thesis by simp
    next
      case (Some w)
      obtain u ph where w: "w = (u, ph)" by (cases w)
      from assms Inr Some w have q: "Q u" by blast
      let ?acc = "if list_ex (\<lambda>pattern. re_search (re_digit e) pattern (path ph)) news_patterns
                     \<and> u \<notin> set acc then pyset_add u acc else acc"
      from q Cons.prems(1) have acc': "\<forall>u \<in> set ?acc. Q u" by (auto simp: pyset_add_def)
      show ?thesis
      proof (cases "m \<le> int (length ?acc)")
        case True
        with Cons.prems(2) Inr Some w have "r = ?acc" by (simp add: Let_def)
        with acc' show ?thesis by simp
      next
        case False
        with Cons.prems(2) Inr Some w have "last_resort e pu b m links ?acc = Inr r"
          by (simp add: Let_def)
        from Cons.IH[OF acc' this] show ?thesis .
      qed
    qed
  qed
qed

lemma detect_news_links_keeps:
  assumes q: "\<And>pu b link u ph. resolve_link e pu b link = Inr (Some (u, ph)) \<Longrightarrow> Q u"
    and d: "detect_news_links e site m = Inr links"
  shows "\<forall>u \<in> set links. Q u"
proof (cases "\<exists>html sp pu. fetch_page e site = Inr (Some html) \<and> html \<noteq> []
          \<and> BeautifulSoup e html = Inr sp \<and> urlparse e site = Inr pu")
  case False
  with d have "links = []"
    by (auto simp: detect_news_links_def split: sum.splits option.splits if_splits)
  then show ?thesis by simp
next
  case True
  then obtain html sp pu where f: "fetch_page e site = Inr (Some html)" "html \<noteq> []"
    "BeautifulSoup e html = Inr sp" "urlparse e site = Inr pu" by blast
  let ?b = "base_of pu"
  let ?ls = "list_of_pyset (tag_order e) (unique_links (links_to_check e sp))"
  from d f obtain nl nl' where
    m: "main_pass e pu ?b m ?ls [] = Inr nl"
    and l: "(if nl = [] then last_resort e pu ?b m (map snd (find_all a_href sp)) [] else Inr nl) = Inr nl'"
    and r: "links = list_of_pyset (str_order e) nl'"
    by (auto simp: detect_news_links_def Let_def split: sum.splits)
  have 1: "\<forall>u \<in> set nl. Q u"
    by (rule main_pass_keeps[OF q _ m]) simp_all
  have 2: "\<forall>u \<in> set nl'. Q u"
  proof (cases "nl = []")
    case True
    with l have "last_resort e pu ?b m (map snd (find_all a_href sp)) [] = Inr nl'" by simp
    from last_resort_keeps[OF q _ this] show ?thesis by simp
  next
    case False
    with l 1 show ?thesis by simp
  qed
  with r show ?thesis by (simp add: set_list_of_pyset)
qed

text \<open>
  Claim C6. No URL returned by \<open>detect_news_links\<close> contains an exclusion pattern in its
  lowercased form, whatever its path matches: both passes add a URL only after
  \<open>resolve_link\<close> has let it through.
\<close>

theorem excluded_never_returned:
  assumes "detect_news_links e site max_links = Inr links"
    and "u \<in> set links"
  shows "\<not> excluded e u"
  using detect_news_links_keeps[of e "\<lambda>u. \<not> excluded e u", OF _ assms(1)]
    resolve_link_not_excluded assms(2) by blast

subsection \<open>The returned list has no duplicates\<close>





subsection \<open>The cap\<close>

lemma collect_news_cap:
  "int (length acc) < n \<Longrightarrow> int (length (collect_news e n links acc)) \<le> n"
proof (induction links arbitrary: acc)
  case Nil
  then show ?case by simp
next
  case (Cons l links)
  show ?case
  proof (cases "parse_news_content e l")
    case (Inl x)
    with Cons.prems show ?thesis by simp
  next
    case (Inr r)
    show ?thesis
    proof (cases r)
      case None
      with Inr Cons show ?thesis by simp
    next
      case (Some d)
      show ?thesis
      proof (cases "n \<le> int (length (acc @ [d]))")
        case True
        with Inr Some Cons.prems show ?thesis by (simp add: Let_def)
      next
        case False
        then have "int (length (acc @ [d])) < n" by simp
        from Cons.IH[OF this] Inr Some False show ?thesis by (simp add: Let_def)
      qed
    qed
  qed
qed

lemma process_site_cap: "1 \<le> n \<Longrightarrow> int (length (process_site e u n)) \<le> n"
  unfolding process_site_def
  by (auto split: sum.splits intro!: collect_news_cap)

lemma length_concat_bound:
  "\<forall>x \<in> set xs. length (f x) \<le> k \<Longrightarrow> length (concat (map f xs)) \<le> k * length xs"
  by (induction xs) auto

text \<open>
  Claim C10. The endpoint calls \<open>process_site\<close> with the default cap 5 for every site, so
  the response is the concatenation of these results, every site gives at most 5 records,
  and the request has no part in the cap.
\<close>

theorem default_cap:
  assumes "parse_news e urls = Inr resp"
  shows "news resp = concat (map (\<lambda>site_url. process_site e site_url 5) urls)
       \<and> (\<forall>site_url. length (process_site e site_url 5) \<le> 5)
       \<and> length (news resp) \<le> 5 * length urls
       \<and> total_news resp = length (news resp)"
proof -
  have cap: "length (process_site e site_url 5) \<le> 5" for site_url
    using process_site_cap[of 5 e site_url] by simp
  from assms have n: "news resp = concat (map (\<lambda>site_url. process_site e site_url 5) urls)"
    and t: "total_news resp = length (news resp)"
    by (auto simp: parse_news_def default_max_news_def Let_def split: if_splits)
  from n have "length (news resp) \<le> 5 * length urls"
    using length_concat_bound[of urls "\<lambda>site_url. process_site e site_url 5" 5] cap by simp
  with n t cap show ?thesis by blast
qed

subsection \<open>Failures\<close>

lemma collect_news_raise:
  assumes "parse_news_content e l = Inl x"
  shows "\<forall>l' \<in> set pre. \<forall>y. parse_news_content e l' \<noteq> Inl y \<Longrightarrow>
         int (length (acc @ records_of e pre)) < n \<Longrightarrow>
         collect_news e n (pre @ l # post) acc = acc @ records_of e pre"
proof (induction pre arbitrary: acc)
  case Nil
  with assms show ?case by simp
next
  case (Cons p pre)
  show ?case
  proof (cases "parse_news_content e p")
    case (Inl y)
    with Cons.prems show ?thesis by simp
  next
    case (Inr v)
    show ?thesis
    proof (cases v)
      case None
      with Inr Cons show ?thesis by simp
    next
      case (Some d)
      with Inr Cons.prems(2) have lt: "int (length ((acc @ [d]) @ records_of e pre)) < n" by simp
      then have "\<not> n \<le> int (length (acc @ [d]))" by simp
      with Cons.IH[OF _ lt] Cons.prems(1) Inr Some show ?thesis by (simp add: Let_def)
    qed
  qed
qed

text \<open>
  Claim C7. The endpoint fails only for the empty list, with the input-validation error;
  otherwise the response is the concatenation of the results of \<open>process_site\<close> for each
  site, each computed on its own. An exception in the discovery of a site gives the empty
  list for that site; an exception at a link gives the records accumulated from the links
  before it.
\<close>

theorem site_failure_is_contained:
  shows "parse_news e urls =
           (if urls = [] then Inl (HTTPException 400 empty_list_detail)
            else Inr \<lparr>total_news = length (concat (map (\<lambda>site_url. process_site e site_url 5) urls)),
                      news = concat (map (\<lambda>site_url. process_site e site_url 5) urls)\<rparr>)
       \<and> (detect_news_links e site (n * 2) = Inl x \<longrightarrow> process_site e site n = [])
       \<and> (detect_news_links e site' (n * 2) = Inr (pre @ l # post)
            \<and> (\<forall>l' \<in> set pre. \<forall>y. parse_news_content e l' \<noteq> Inl y)
            \<and> parse_news_content e l = Inl x'
            \<and> int (length (records_of e pre)) < n
          \<longrightarrow> process_site e site' n = records_of e pre)"
proof (intro conjI impI)
  show "parse_news e urls =
           (if urls = [] then Inl (HTTPException 400 empty_list_detail)
            else Inr \<lparr>total_news = length (concat (map (\<lambda>site_url. process_site e site_url 5) urls)),
                      news = concat (map (\<lambda>site_url. process_site e site_url 5) urls)\<rparr>)"
    by (simp add: parse_news_def default_max_news_def Let_def)
next
  assume "detect_news_links e site (n * 2) = Inl x"
  then show "process_site e site n = []" by (simp add: process_site_def)
next
  assume a: "detect_news_links e site' (n * 2) = Inr (pre @ l # post)
            \<and> (\<forall>l' \<in> set pre. \<forall>y. parse_news_content e l' \<noteq> Inl y)
            \<and> parse_news_content e l = Inl x'
            \<and> int (length (records_of e pre)) < n"
  then have "collect_news e n (pre @ l # post) [] = [] @ records_of e pre"
    by (intro collect_news_raise) auto
  with a show "process_site e site' n = records_of e pre" by (simp add: process_site_def)
qed

subsection \<open>The iteration orders are used in two places only\<close>

lemma fetch_page_order_free:
  "fetch_page (e\<lparr>tag_order := t, str_order := s\<rparr>) = fetch_page e"
  by (rule ext) (simp add: fetch_page_def)









lemma title_loop_order_free:
  "title_loop (e\<lparr>tag_order := t, str_order := s\<rparr>) cs cur = title_loop e cs cur"
proof (induction cs arbitrary: cur)
  case Nil
  then show ?case by simp
next
  case (Cons c cs)
  then show ?case by (cases c) (simp_all add: Let_def)
qed

lemma title_candidates_order_free:
  "title_candidates (e\<lparr>tag_order := t, str_order := s\<rparr>) = title_candidates e"
  by (rule ext) (simp add: title_candidates_def)

lemma resolve_title_order_free:
  "resolve_title (e\<lparr>tag_order := t, str_order := s\<rparr>) = resolve_title e"
  by (rule ext)
     (simp add: resolve_title_def title_candidates_order_free title_loop_order_free)

lemma strip_navigation_order_free:
  "strip_navigation (e\<lparr>tag_order := t, str_order := s\<rparr>) = strip_navigation e"
  by (intro ext) (simp add: strip_navigation_def)

lemma filter_paragraphs_order_free:
  "filter_paragraphs (e\<lparr>tag_order := t, str_order := s\<rparr>) = filter_paragraphs e"
  by (intro ext) (simp add: filter_paragraphs_def)

lemma content_containers_order_free:
  "content_containers (e\<lparr>tag_order := t, str_order := s\<rparr>) = content_containers e"
  by (rule ext) (simp add: content_containers_def)

lemma container_loop_order_free:
  "container_loop (e\<lparr>tag_order := t, str_order := s\<rparr>) cs st = container_loop e cs st"
proof (induction cs arbitrary: st)
  case Nil
  then show ?case by simp
next
  case (Cons c cs)
  then show ?case
    by (cases c)
       (simp_all add: strip_navigation_order_free filter_paragraphs_order_free Let_def)
qed

lemma main_or_body_order_free:
  "main_or_body (e\<lparr>tag_order := t, str_order := s\<rparr>) = main_or_body e"
  by (rule ext)
     (simp add: main_or_body_def strip_navigation_order_free filter_paragraphs_order_free
        Let_def split: option.splits prod.splits)

lemma all_paragraphs_order_free:
  "all_paragraphs (e\<lparr>tag_order := t, str_order := s\<rparr>) = all_paragraphs e"
  by (rule ext) (simp add: all_paragraphs_def filter_paragraphs_order_free Let_def)

lemma resolve_body_order_free:
  "resolve_body (e\<lparr>tag_order := t, str_order := s\<rparr>) = resolve_body e"
  by (rule ext)
     (simp add: resolve_body_def content_containers_order_free container_loop_order_free
        main_or_body_order_free all_paragraphs_order_free)

lemma article_of_order_free:
  "article_of (e\<lparr>tag_order := t, str_order := s\<rparr>) = article_of e"
  by (intro ext)
     (simp add: article_of_def resolve_title_order_free resolve_body_order_free Let_def)

lemma parse_news_content_order_free:
  "parse_news_content (e\<lparr>tag_order := t, str_order := s\<rparr>) = parse_news_content e"
  by (rule ext)
     (simp add: parse_news_content_def fetch_page_order_free article_of_order_free
        split: sum.splits option.splits)

subsection \<open>The main pass below the cap\<close>








subsection \<open>The records of a site below the cap\<close>

lemma collect_news_order_free:
  "collect_news (e\<lparr>tag_order := t, str_order := s\<rparr>) n links acc = collect_news e n links acc"
  by (induction links arbitrary: acc)
     (simp_all add: parse_news_content_order_free Let_def split: sum.splits option.splits)

lemma length_records_of: "length (records_of e ls) \<le> length ls"
  by (induction ls) (auto split: sum.splits option.splits)


lemma set_records_of:
  "set (records_of e ls) = {r. \<exists>l \<in> set ls. parse_news_content e l = Inr (Some r)}"
  by (induction ls) (auto split: sum.splits option.splits)







subsection \<open>Runs in the concrete environment\<close>

lemma run_detect_site: "detect_news_links env0 site_url 10 = Inr [article1_url, article2_url]"
  by code_simp


lemma run_detect_site_0: "detect_news_links env0 site_url 0 = Inr [article1_url]"
  by code_simp

lemma run_detect_other:
  "detect_news_links env0 other_site_url 10 = Inr [ascii ''http://notexample.org/news/12345'']"
  by code_simp

lemma run_detect_net:
  "detect_news_links env0 net_site_url 10 = Inr [net_article1_url, net_article2_url]"
  by code_simp

lemma run_detect_failing: "detect_news_links env0 failing_site_url 10 = Inl unexpected"
  by code_simp

lemma run_article1: "parse_news_content env0 article1_url = Inr (Some article1_item)"
  by code_simp

lemma run_article2: "parse_news_content env0 article2_url = Inr (Some article2_item)"
  by code_simp

lemma run_net_article1: "parse_news_content env0 net_article1_url = Inr (Some net_article1_item)"
  by code_simp

lemma run_net_article2: "parse_news_content env0 net_article2_url = Inl unexpected"
  by code_simp

lemma run_fetch_article2: "fetch_page env0 article2_url = Inr (Some article2_markup)"
  by code_simp

lemma run_soup_article2: "BeautifulSoup env0 article2_markup = Inr article2_tree"
  by code_simp

lemma run_candidates1:
  "map (map_option (get_text (isspace env0))) (title_candidates env0 article1_tree)
     = [Some (ascii ''Council vote''), None, None, None, Some (ascii ''City news'')]"
  by code_simp

lemma run_candidates2:
  "title_candidates env0 article2_tree = [None, None, None, None, Some (elem ''title'' [])]"
  by code_simp

lemma run_title_element2:
  "claimed_text env0 (elem ''title'' []) = [] \<and> get_attr (elem ''title'' []) (ascii ''content'') [] = []"
  by code_simp

lemma run_process_site: "process_site env0 site_url 5 = [article1_item, article2_item]"
  by (simp add: process_site_def run_detect_site run_article1 run_article2)

lemma run_process_site_0: "process_site env0 site_url 0 = [article1_item]"
  by (simp add: process_site_def run_detect_site_0 run_article1)

lemma run_process_net: "process_site env0 net_site_url 5 = [net_article1_item]"
  by (simp add: process_site_def run_detect_net run_net_article1 run_net_article2)

subsection \<open>The theorems at concrete inputs\<close>

theorem quality_gate_witness:
  "parse_news_content env0 article1_url = Inr (Some article1_item)
   \<and> 100 \<le> length (content article1_item)
   \<and> \<not> list_ex (\<lambda>phrase. py_in phrase (lower env0 (content article1_item))) error_markers
   \<and> (\<exists>html sp. fetch_page env0 article1_url = Inr (Some html) \<and> BeautifulSoup env0 html = Inr sp
        \<and> content article1_item = join (ascii '' '')
             (filter_paragraphs env0 (tree (resolve_body env0 sp)) (paragraphs (resolve_body env0 sp)))
        \<and> 3 \<le> card (set
             (filter_paragraphs env0 (tree (resolve_body env0 sp)) (paragraphs (resolve_body env0 sp)))))"
  by (rule conjI[OF run_article1 quality_gate[OF run_article1]])



theorem fallback_title_used_witness:
  "parse_news_content env0 article2_url = Inr (Some article2_item)
   \<and> fetch_page env0 article2_url = Inr (Some article2_markup)
   \<and> BeautifulSoup env0 article2_markup = Inr article2_tree
   \<and> title_candidates env0 article2_tree = [None, None, None, None, Some (elem ''title'' [])]
   \<and> claimed_text env0 (elem ''title'' []) = []
   \<and> get_attr (elem ''title'' []) (ascii ''content'') [] = []
   \<and> title article2_item = fallback_title"
proof -
  have "\<forall>c \<in> set (title_candidates env0 article2_tree). \<forall>d. c = Some d \<longrightarrow>
           claimed_text env0 d = [] \<and> get_attr d (ascii ''content'') [] = []"
    using run_title_element2 by (simp add: run_candidates2)
  from fallback_title_used[OF run_article2 run_fetch_article2 run_soup_article2 this]
  show ?thesis
    using run_article2 run_fetch_article2 run_soup_article2 run_candidates2 run_title_element2
    by blast
qed

text \<open>
  Claim C5 as stated fails: no title source of the second article yields text, and the
  title of its record is not \<open>untitled\<close>.
\<close>

theorem untitled_is_not_the_fallback:
  "parse_news_content env0 article2_url = Inr (Some article2_item)
   \<and> list_all (\<lambda>c. case c of None \<Rightarrow> True | Some d \<Rightarrow> claimed_text env0 d = [])
        (title_candidates env0 article2_tree)
   \<and> title article2_item \<noteq> ascii ''untitled''"
proof -
  have "list_all (\<lambda>c. case c of None \<Rightarrow> True | Some d \<Rightarrow> claimed_text env0 d = [])
        (title_candidates env0 article2_tree)"
    using run_title_element2 by (simp add: run_candidates2)
  moreover have "title article2_item \<noteq> ascii ''untitled''" by code_simp
  ultimately show ?thesis using run_article2 by blast
qed

theorem excluded_never_returned_witness:
  "detect_news_links env0 site_url 10 = Inr [article1_url, article2_url]
   \<and> article1_url \<in> set [article1_url, article2_url]
   \<and> \<not> excluded env0 article1_url"
  using excluded_never_returned[OF run_detect_site, of article1_url] run_detect_site by simp

theorem default_cap_witness:
  "parse_news env0 [site_url] = Inr \<lparr>total_news = 2, news = [article1_item, article2_item]\<rparr>
   \<and> news \<lparr>total_news = 2, news = [article1_item, article2_item]\<rparr>
        = concat (map (\<lambda>site_url. process_site env0 site_url 5) [site_url])
   \<and> (\<forall>site_url. length (process_site env0 site_url 5) \<le> 5)
   \<and> length (news \<lparr>total_news = 2, news = [article1_item, article2_item]\<rparr>) \<le> 5 * length [site_url]"
proof -
  have p: "parse_news env0 [site_url] = Inr \<lparr>total_news = 2, news = [article1_item, article2_item]\<rparr>"
    by (simp add: parse_news_def default_max_news_def run_process_site)
  from default_cap[OF p] p show ?thesis by blast
qed

theorem site_failure_is_contained_witness:
  "parse_news env0 [failing_site_url, net_site_url]
     = Inr \<lparr>total_news = 1, news = [net_article1_item]\<rparr>
   \<and> detect_news_links env0 failing_site_url (5 * 2) = Inl unexpected
   \<and> process_site env0 failing_site_url 5 = []
   \<and> detect_news_links env0 net_site_url (5 * 2) = Inr ([net_article1_url] @ net_article2_url # [])
   \<and> parse_news_content env0 net_article1_url = Inr (Some net_article1_item)
   \<and> parse_news_content env0 net_article2_url = Inl unexpected
   \<and> process_site env0 net_site_url 5 = [net_article1_item]"
proof -
  note t = site_failure_is_contained[of env0 "[failing_site_url, net_site_url]"
      failing_site_url 5 unexpected net_site_url "[net_article1_url]" net_article2_url "[]" unexpected]
  have f: "detect_news_links env0 failing_site_url (5 * 2) = Inl unexpected"
    using run_detect_failing by simp
  have n: "detect_news_links env0 net_site_url (5 * 2) = Inr ([net_article1_url] @ net_article2_url # [])"
    using run_detect_net by simp
  from t f have 1: "process_site env0 failing_site_url 5 = []" by blast
  have r: "records_of env0 [net_article1_url] = [net_article1_item]"
    by (simp add: run_net_article1)
  have "\<forall>l' \<in> set [net_article1_url]. \<forall>y. parse_news_content env0 l' \<noteq> Inl y"
    by (simp add: run_net_article1)
  with t n r run_net_article2 have 2: "process_site env0 net_site_url 5 = [net_article1_item]"
    by simp
  from t 1 2 have "parse_news env0 [failing_site_url, net_site_url]
     = Inr \<lparr>total_news = 1, news = [net_article1_item]\<rparr>" by simp
  with f n 1 2 run_net_article1 run_net_article2 show ?thesis by blast
qed

text \<open>
  Claim C1 at a concrete page. The first article has a heading with the visible text
  \<open>Council vote\<close> and a document title \<open>City news\<close>, and no \<open>meta\<close> tag. The claim gives
  the title \<open>Council vote\<close>. The program asks every candidate for its \<open>content\<close> attribute,
  since every tag has the method \<open>get\<close>; neither element has the attribute, and the title
  is the fallback literal.
\<close>

theorem heading_text_is_not_the_title:
  "map (map_option (get_text (isspace env0))) (title_candidates env0 article1_tree)
     = [Some (ascii ''Council vote''), None, None, None, Some (ascii ''City news'')]
   \<and> parse_news_content env0 article1_url = Inr (Some article1_item)
   \<and> title article1_item = fallback_title"
  using run_candidates1 run_article1 by (simp add: article1_item_def)

text \<open>
  Claim C3 at \<open>max_news = 0\<close>. Both loops test the cap after adding, so one link is
  discovered and one record is returned where the claim gives the empty list. For
  \<open>1 \<le> max_news\<close> the bound holds (\<open>process_site_cap\<close>).
\<close>

theorem cap_exceeded_at_zero:
  "process_site env0 site_url 0 = [article1_item] \<and> length (process_site env0 site_url 0) = 1"
  by (simp add: run_process_site_0)

text \<open>
  Claim C4 at a concrete page. The front page of \<open>example.org\<close> links to
  \<open>notexample.org\<close>; the site's host is a substring of that host, the test of lines 159
  and 217 lets the link through, and the URL of the other host is returned.
\<close>

theorem other_host_is_returned:
  "detect_news_links env0 other_site_url 10 = Inr [ascii ''http://notexample.org/news/12345'']
   \<and> map_sum id netloc (url_parse other_site_url) = Inr (ascii ''example.org'')
   \<and> map_sum id netloc (url_parse (ascii ''http://notexample.org/news/12345''))
        = Inr (ascii ''notexample.org'')"
proof -
  have "map_sum id netloc (url_parse other_site_url) = Inr (ascii ''example.org'')"
    by code_simp
  moreover have "map_sum id netloc (url_parse (ascii ''http://notexample.org/news/12345''))
        = Inr (ascii ''notexample.org'')"
    by code_simp
  ultimately show ?thesis using run_detect_other by blast
qed

subsection \<open>Two iteration orders\<close>

















end
